theory Spec2Isabelle
  imports Main
begin

section \<open>Data exchanged with the search engine\<close>

text \<open>
  The source holds the command line front end and two revisions of the library file
  \<^verbatim>\<open>lgrep.go\<close>: an earlier one whose entry points return the source documents directly,
  and a later one whose entry points return a \<^verbatim>\<open>SearchStream\<close>. Definitions of the earlier
  revision carry the suffix \<open>_early\<close>; everything else is the later revision.

  A JSON document (\<^verbatim>\<open>json.RawMessage\<close>, \<^verbatim>\<open>[]byte\<close>) is its text. A Go map with
  string keys is an association list; the nil map and the empty map are both \<open>[]\<close>,
  which is all that \<^verbatim>\<open>len(m) != 0\<close> can tell apart.
\<close>

type_synonym json = string

type_synonym QueryMap = "(string \<times> json) list"

text \<open>
  The errors the library creates itself, the two that come from its collaborators
  (\<^verbatim>\<open>encoding/json\<close> and the engine), and \<^verbatim>\<open>errors.Annotatef\<close>.
\<close>

datatype error =
    ErrEmptySearch
  | ErrZeroSize
  | ErrNilDocument
  | JSONSyntaxError string
  | EngineError string
  | Annotated error string

text \<open>
  A Go call returns, panics (a nil pointer is dereferenced) or ends the process
  (\<^verbatim>\<open>log.Fatalf\<close>).
\<close>

datatype 'a outcome = Returns 'a | Panics | Exits

text \<open>
  \<^verbatim>\<open>elastic.SearchHit\<close>: the envelope of one hit. \<^verbatim>\<open>Source\<close> is a pointer to the raw
  document (\<open>None\<close> is nil), \<^verbatim>\<open>Fields\<close> the field projection.
\<close>

record SearchHit =
  hit_Index :: string
  hit_Type :: string
  hit_Id :: string
  hit_Source :: "json option"
  hit_Fields :: "(string \<times> json) list"

text \<open>
  \<^verbatim>\<open>SearchOptions\<close>. The earlier revision declares \<^verbatim>\<open>Size\<close>, \<^verbatim>\<open>Index\<close>, \<^verbatim>\<open>Indices\<close>,
  \<^verbatim>\<open>SortTime\<close> and \<^verbatim>\<open>QueryDebug\<close>; the later revision reads \<^verbatim>\<open>Fields\<close>, \<^verbatim>\<open>RawResult\<close> and
  \<^verbatim>\<open>QuerySkipValidate\<close> as well. \<^verbatim>\<open>SortTime\<close> is a pointer to a boolean: \<open>None\<close> is nil.
  \<^verbatim>\<open>Size\<close> is only ever compared with 0 and handed on, so it is an integer.
\<close>

record SearchOptions =
  Size :: int
  Index :: string
  Indices :: "string list"
  SortTime :: "bool option"
  Fields :: "string list"
  RawResult :: bool
  QueryDebug :: bool
  QuerySkipValidate :: bool

text \<open>
  \<^verbatim>\<open>Result\<close>: the three conversions \<^verbatim>\<open>HitResult(*hit)\<close>, \<^verbatim>\<open>FieldResult(hit.Fields)\<close> and
  \<^verbatim>\<open>SourceResult(*hit.Source)\<close> of \<^verbatim>\<open>extractResult\<close>.
\<close>

datatype Result =
    HitResult SearchHit
  | FieldResult "(string \<times> json) list"
  | SourceResult json

section \<open>The result extractor\<close>

text \<open>
  The last two statements of \<^verbatim>\<open>extractResult\<close>: the guard
  \<^verbatim>\<open>hit == nil || hit.Source == nil\<close> and the conversion of the source document.
\<close>

definition extractSource :: "SearchHit option \<Rightarrow> (error + Result) outcome" where
  "extractSource hit =
     (case hit of
        None \<Rightarrow> Returns (Inl ErrNilDocument)
      | Some h \<Rightarrow>
          (case hit_Source h of
             None \<Rightarrow> Returns (Inl ErrNilDocument)
           | Some src \<Rightarrow> Returns (Inr (SourceResult src))))"

text \<open>
  \<^verbatim>\<open>extractResult(hit *elastic.SearchHit, spec SearchOptions)\<close>. The hit is a pointer:
  \<^verbatim>\<open>*hit\<close> and \<^verbatim>\<open>hit.Fields\<close> panic on nil. Go's \<^verbatim>\<open>&&\<close> evaluates \<^verbatim>\<open>len(hit.Fields)\<close> only
  when \<^verbatim>\<open>len(spec.Fields) != 0\<close>.
\<close>

definition extractResult :: "SearchHit option \<Rightarrow> SearchOptions \<Rightarrow> (error + Result) outcome" where
  "extractResult hit spec =
     (if RawResult spec then
        (case hit of
           None \<Rightarrow> Panics
         | Some h \<Rightarrow> Returns (Inr (HitResult h)))
      else if Fields spec \<noteq> [] then
        (case hit of
           None \<Rightarrow> Panics
         | Some h \<Rightarrow>
             if hit_Fields h \<noteq> [] then Returns (Inr (FieldResult (hit_Fields h)))
             else extractSource hit)
      else extractSource hit)"

text \<open>
  \<^verbatim>\<open>consumeResults\<close>: the loop over \<^verbatim>\<open>res.Hits.Hits\<close>, with the results collected so
  far as the accumulator. On an error the results collected so far are returned with it.
\<close>

fun consumeResults_loop ::
  "SearchHit option list \<Rightarrow> SearchOptions \<Rightarrow> Result list \<Rightarrow> (Result list \<times> error option) outcome" where
  "consumeResults_loop [] spec results = Returns (results, None)"
| "consumeResults_loop (doc # docs) spec results =
     (case extractResult doc spec of
        Panics \<Rightarrow> Panics
      | Exits \<Rightarrow> Exits
      | Returns (Inl err) \<Rightarrow> Returns (results, Some err)
      | Returns (Inr result) \<Rightarrow> consumeResults_loop docs spec (results @ [result]))"

definition consumeResults ::
  "SearchHit option list \<Rightarrow> SearchOptions \<Rightarrow> (Result list \<times> error option) outcome" where
  "consumeResults hits spec = consumeResults_loop hits spec []"

section \<open>The request builder\<close>

text \<open>
  \<^verbatim>\<open>elastic.SearchService\<close> belongs to the engine's client library. A request under
  construction is the sequence of the calls made on it, oldest first: the calls, their
  arguments and their order are what the library's code decides. \<^verbatim>\<open>Index\<close> is variadic.
\<close>

datatype search_call =
    CallQueryString string
  | CallSize int
  | CallIndex "string list"
  | CallSortByTimestamp bool
  | CallSource QueryMap

type_synonym SearchService = "search_call list"

text \<open>\<^verbatim>\<open>NewSearch\<close>: a fresh search service on a fresh search source.\<close>

definition NewSearch :: SearchService where
  "NewSearch = []"

text \<open>
  Modelled from the spec: \<^verbatim>\<open>SearchWithLucene\<close> is called by the entry points and declared
  outside the source. The spec (4.2): it "wraps the string as a query-string search
  expression understood by the engine".
\<close>

definition SearchWithLucene :: "SearchService \<Rightarrow> string \<Rightarrow> SearchService" where
  "SearchWithLucene search q = search @ [CallQueryString q]"

text \<open>
  Modelled from the spec: \<^verbatim>\<open>SortByTimestamp\<close> is called by \<^verbatim>\<open>apply\<close> and declared outside
  the source. The spec (4.1): "sort by the canonical timestamp field, ascending or
  descending". The boolean is handed on as it is.
\<close>

definition SortByTimestamp :: "SearchService \<Rightarrow> bool \<Rightarrow> SearchService" where
  "SortByTimestamp search asc = search @ [CallSortByTimestamp asc]"

text \<open>
  \<^verbatim>\<open>func (s SearchOptions) apply(search *elastic.SearchService)\<close> of the earlier
  revision: four guarded calls, one after the other, on the same builder.
\<close>

definition SearchOptions_apply :: "SearchOptions \<Rightarrow> SearchService \<Rightarrow> SearchService" where
  "SearchOptions_apply s search0 =
     (let search1 = (if Size s \<noteq> 0 then search0 @ [CallSize (Size s)] else search0);
          search2 = (if Index s \<noteq> [] then search1 @ [CallIndex [Index s]] else search1);
          search3 = (if Indices s \<noteq> [] then search2 @ [CallIndex (Indices s)] else search2)
      in case SortTime s of
           None \<Rightarrow> search3
         | Some asc \<Rightarrow> SortByTimestamp search3 asc)"

text \<open>
  Modelled from the spec: \<^verbatim>\<open>configureSearch\<close>, which the later revision calls where the
  earlier one calls \<^verbatim>\<open>apply\<close>, is declared outside the source. The spec (4.1) gives one
  contract for applying the options to a request: size, index selection and sort
  direction, in that order, each only if set.
\<close>

definition configureSearch :: "SearchOptions \<Rightarrow> SearchService \<Rightarrow> SearchService" where
  "configureSearch s search = SearchOptions_apply s search"

text \<open>
  Modelled from the spec: \<^verbatim>\<open>SortDesc\<close> is declared outside the source. The spec (3) reads
  \<^verbatim>\<open>DefaultSpec\<close> as \<^verbatim>\<open>{Size:100, SortTime:Descending}\<close>: a pointer to the boolean
  "ascending" that is false.
\<close>

definition SortDesc :: "bool option" where
  "SortDesc = Some False"

text \<open>\<^verbatim>\<open>DefaultSpec = SearchOptions{Size: 100, SortTime: SortDesc}\<close>; every other field is Go's zero value.\<close>

definition DefaultSpec :: SearchOptions where
  "DefaultSpec = \<lparr>Size = 100, Index = [], Indices = [], SortTime = SortDesc, Fields = [],
     RawResult = False, QueryDebug = False, QuerySkipValidate = False\<rparr>"

text \<open>\<^verbatim>\<open>if spec == nil { spec = &DefaultSpec }\<close>: the options an entry point goes on with.\<close>

definition spec_or_default :: "SearchOptions option \<Rightarrow> SearchOptions" where
  "spec_or_default spec = (case spec of None \<Rightarrow> DefaultSpec | Some s \<Rightarrow> s)"

section \<open>The engine and the effects of an entry point\<close>

text \<open>
  An \<^verbatim>\<open>elastic.Query\<close> handed to \<^verbatim>\<open>validate\<close> and \<^verbatim>\<open>execute\<close>: the search source of the
  builder (\<^verbatim>\<open>SimpleSearchStream\<close>; the source is shared with the builder, so it is the
  builder's calls so far) or a query map (\<^verbatim>\<open>SearchWithSourceStream\<close>).
\<close>

datatype Query = SearchSourceQuery SearchService | QueryMapQuery QueryMap

text \<open>
  The entry points reach the engine through three calls only: \<^verbatim>\<open>search.Do()\<close> in the
  earlier revision, \<^verbatim>\<open>l.validate\<close> and \<^verbatim>\<open>l.execute\<close> in the later one. The world records
  each of them with its arguments, oldest first, and what was handed to the debug
  printer on standard error.
\<close>

datatype engine_call =
    is_Do: Do SearchService
  | is_Validate: Validate Query SearchOptions
  | is_Execute: Execute SearchService Query SearchOptions

datatype debug_item = DebugQuery Query | DebugResponse string

record world =
  requests :: "engine_call list"
  debug :: "debug_item list"

text \<open>
  What the collaborators answer: \<^verbatim>\<open>encoding/json\<close> on the bytes of a raw query, the
  engine's validate facility, the engine on an executed request (later revision) and on
  \<^verbatim>\<open>search.Do()\<close> (earlier revision). They are parameters of every entry point.
\<close>

record LGrep =
  json_Unmarshal :: "json \<Rightarrow> error + QueryMap"
  validate_reply :: "Query \<Rightarrow> SearchOptions \<Rightarrow> string \<times> error option"
  execute_reply :: "SearchService \<Rightarrow> Query \<Rightarrow> SearchOptions \<Rightarrow> error + SearchHit option list"
  do_reply :: "SearchService \<Rightarrow> error + SearchHit option list"

text \<open>\<^verbatim>\<open>printQueryDebug(os.Stderr, v)\<close>, and \<^verbatim>\<open>dbg(os.Stderr)\<close> of the earlier revision.\<close>

definition printQueryDebug :: "debug_item \<Rightarrow> world \<Rightarrow> world" where
  "printQueryDebug v w = w\<lparr>debug := debug w @ [v]\<rparr>"

section \<open>The earlier revision: entry points that return the documents\<close>

text \<open>The loop \<^verbatim>\<open>docs = append(docs, doc.Source)\<close>; \<^verbatim>\<open>doc\<close> is a pointer.\<close>

fun collect_sources :: "SearchHit option list \<Rightarrow> json option list \<Rightarrow> json option list outcome" where
  "collect_sources [] docs = Returns docs"
| "collect_sources (None # hits) docs = Panics"
| "collect_sources (Some doc # hits) docs = collect_sources hits (docs @ [hit_Source doc])"

text \<open>
  The common tail of \<^verbatim>\<open>SimpleSearch\<close> and \<^verbatim>\<open>SearchWithSource\<close> in the earlier revision, from
  \<^verbatim>\<open>spec.apply(search)\<close> to the end: the same statements in both.
\<close>

definition submit_early ::
  "LGrep \<Rightarrow> SearchService \<Rightarrow> SearchOptions \<Rightarrow> world \<Rightarrow> (json option list \<times> error option) outcome \<times> world" where
  "submit_early l search0 s w0 =
     (let search = SearchOptions_apply s search0;
          w1 = (if QueryDebug s then printQueryDebug (DebugQuery (SearchSourceQuery search)) w0 else w0);
          w2 = w1\<lparr>requests := requests w1 @ [Do search]\<rparr>
      in case do_reply l search of
           Inl err \<Rightarrow> (Returns ([], Some (Annotated err ''Search returned with error'')), w2)
         | Inr hits \<Rightarrow>
             (case collect_sources hits [] of
                Returns docs \<Rightarrow> (Returns (docs, None), w2)
              | Panics \<Rightarrow> (Panics, w2)
              | Exits \<Rightarrow> (Exits, w2)))"

text \<open>
  \<^verbatim>\<open>SimpleSearch\<close> of the earlier revision. A zero size returns the empty list and the
  nil error that \<^verbatim>\<open>err\<close> still holds.
\<close>

definition SimpleSearch_early ::
  "LGrep \<Rightarrow> string \<Rightarrow> SearchOptions option \<Rightarrow> world \<Rightarrow> (json option list \<times> error option) outcome \<times> world" where
  "SimpleSearch_early l q spec w =
     (if q = [] then (Returns ([], Some ErrEmptySearch), w)
      else
        let search = SearchWithLucene NewSearch q
        in case spec of
             Some s \<Rightarrow> if Size s = 0 then (Returns ([], None), w) else submit_early l search s w
           | None \<Rightarrow> submit_early l search DefaultSpec w)"

text \<open>
  \<^verbatim>\<open>SearchWithSource\<close> of the earlier revision. The \<^verbatim>\<open>source\<close> argument is never read.
\<close>

definition SearchWithSource_early ::
  "LGrep \<Rightarrow> QueryMap \<Rightarrow> SearchOptions option \<Rightarrow> world \<Rightarrow> (json option list \<times> error option) outcome \<times> world" where
  "SearchWithSource_early l source spec w =
     (let search = NewSearch
      in case spec of
           Some s \<Rightarrow> if Size s = 0 then (Returns ([], None), w) else submit_early l search s w
         | None \<Rightarrow> submit_early l search DefaultSpec w)"

section \<open>The later revision: entry points that return a stream\<close>

text \<open>
  Modelled from the spec: \<^verbatim>\<open>validate\<close> is a method of \<^verbatim>\<open>LGrep\<close> declared outside the
  source. The spec (4.3): \<^verbatim>\<open>validate(query, options) -> (response, error)\<close> asks "the
  engine to check query well-formedness without committing to a full result fetch".
  One call, one request to the engine.
\<close>

definition validate ::
  "LGrep \<Rightarrow> Query \<Rightarrow> SearchOptions \<Rightarrow> world \<Rightarrow> (string \<times> error option) \<times> world" where
  "validate l query spec w =
     (validate_reply l query spec, w\<lparr>requests := requests w @ [Validate query spec]\<rparr>)"

text \<open>
  Modelled from the spec: \<^verbatim>\<open>SearchStream\<close> is declared outside the source. The spec (3):
  "a live, single-pass handle bound to one executed Request"; (2) the stream yields the
  engine's hits, which the result extractor turns into results under the request's options.
\<close>

record SearchStream =
  stream_hits :: "SearchHit option list"
  stream_spec :: SearchOptions

text \<open>
  Modelled from the spec: \<^verbatim>\<open>execute\<close> is a method of \<^verbatim>\<open>LGrep\<close> declared outside the
  source. The spec (4.4): it "issues the request to the engine"; an error of the engine
  "is returned to the caller", otherwise the stream holds the hits "in the order the
  engine returns them".
\<close>

definition execute ::
  "LGrep \<Rightarrow> SearchService \<Rightarrow> Query \<Rightarrow> SearchOptions \<Rightarrow> world \<Rightarrow> (error + SearchStream) outcome \<times> world" where
  "execute l search query spec w =
     (let w1 = w\<lparr>requests := requests w @ [Execute search query spec]\<rparr>
      in case execute_reply l search query spec of
           Inl err \<Rightarrow> (Returns (Inl err), w1)
         | Inr hits \<Rightarrow> (Returns (Inr \<lparr>stream_hits = hits, stream_spec = spec\<rparr>), w1))"

text \<open>
  Modelled from the spec: \<^verbatim>\<open>All\<close> is a method of \<^verbatim>\<open>SearchStream\<close> declared outside the
  source. The spec (4.4): it "drains the stream into an ordered sequence of Result,
  preserving yield order". The hits go through \<^verbatim>\<open>consumeResults\<close> of the source.
\<close>

definition SearchStream_All :: "SearchStream \<Rightarrow> (Result list \<times> error option) outcome" where
  "SearchStream_All stream = consumeResults (stream_hits stream) (stream_spec stream)"

text \<open>
  \<^verbatim>\<open>SimpleSearchStream\<close> from \<^verbatim>\<open>spec.configureSearch(search)\<close> to the end. The error of
  \<^verbatim>\<open>source.Source()\<close> is only logged there, so it is left out.
\<close>

definition SimpleSearchStream_submit ::
  "LGrep \<Rightarrow> SearchService \<Rightarrow> SearchOptions \<Rightarrow> world \<Rightarrow> (error + SearchStream) outcome \<times> world" where
  "SimpleSearchStream_submit l search0 s w0 =
     (let search = configureSearch s search0;
          source = SearchSourceQuery search;
          w1 = (if QueryDebug s then printQueryDebug (DebugQuery source) w0 else w0)
      in if \<not> QuerySkipValidate s then
           (case validate l source s w1 of
              ((vresp, Some err), w2) \<Rightarrow> (Returns (Inl err), w2)
            | ((vresp, None), w2) \<Rightarrow> execute l search source s w2)
         else execute l search source s w1)"

text \<open>\<^verbatim>\<open>SimpleSearchStream\<close>: the empty query first, then the zero size, then the default options.\<close>

definition SimpleSearchStream ::
  "LGrep \<Rightarrow> string \<Rightarrow> SearchOptions option \<Rightarrow> world \<Rightarrow> (error + SearchStream) outcome \<times> world" where
  "SimpleSearchStream l q spec w =
     (if q = [] then (Returns (Inl ErrEmptySearch), w)
      else
        let search = SearchWithLucene NewSearch q
        in case spec of
             Some s \<Rightarrow>
               if Size s = 0 then (Returns (Inl ErrZeroSize), w)
               else SimpleSearchStream_submit l search s w
           | None \<Rightarrow> SimpleSearchStream_submit l search DefaultSpec w)"

text \<open>
  The common shape of \<^verbatim>\<open>SimpleSearch\<close> and \<^verbatim>\<open>SearchWithSource\<close>: on an error of the stream
  entry point return the nil results and the error, otherwise \<^verbatim>\<open>stream.All()\<close>.
\<close>

definition SimpleSearch ::
  "LGrep \<Rightarrow> string \<Rightarrow> SearchOptions option \<Rightarrow> world \<Rightarrow> (Result list \<times> error option) outcome \<times> world" where
  "SimpleSearch l q spec w =
     (case SimpleSearchStream l q spec w of
        (Returns (Inl err), w1) \<Rightarrow> (Returns ([], Some err), w1)
      | (Returns (Inr stream), w1) \<Rightarrow> (SearchStream_All stream, w1)
      | (Panics, w1) \<Rightarrow> (Panics, w1)
      | (Exits, w1) \<Rightarrow> (Exits, w1))"

text \<open>
  The raw query of \<^verbatim>\<open>SearchWithSourceStream\<close> is an \<^verbatim>\<open>interface{}\<close>; the type switch knows
  four types, every other one is \<open>OtherType\<close>.
\<close>

datatype raw_query =
    RawMessage json
  | ByteSlice json
  | GenericMap QueryMap
  | TypedQueryMap QueryMap
  | OtherType

text \<open>
  Modelled from the spec: \<^verbatim>\<open>QueryMapFromJSON\<close> is declared outside the source. The spec
  (4.2): pre-serialized bytes are normalized to the internal query document. It returns
  Go's pair: the decoded map, or the nil map and the error of the decoder.
\<close>

definition QueryMapFromJSON :: "LGrep \<Rightarrow> json \<Rightarrow> QueryMap \<times> error option" where
  "QueryMapFromJSON l data =
     (case json_Unmarshal l data of
        Inl err \<Rightarrow> ([], Some err)
      | Inr m \<Rightarrow> (m, None))"

text \<open>
  The type switch of \<^verbatim>\<open>SearchWithSourceStream\<close>: the values of \<^verbatim>\<open>query\<close> and of the named
  result \<^verbatim>\<open>err\<close> after it, or \<open>None\<close> when the default case calls \<^verbatim>\<open>log.Fatalf\<close>.
\<close>

definition raw_switch :: "LGrep \<Rightarrow> raw_query \<Rightarrow> (QueryMap \<times> error option) option" where
  "raw_switch l raw =
     (case raw of
        RawMessage v \<Rightarrow> Some (QueryMapFromJSON l v)
      | ByteSlice v \<Rightarrow> Some (QueryMapFromJSON l v)
      | GenericMap v \<Rightarrow> Some (v, None)
      | TypedQueryMap v \<Rightarrow> Some (v, None)
      | OtherType \<Rightarrow> None)"

text \<open>
  \<^verbatim>\<open>SearchWithSourceStream\<close>. There is no test of \<^verbatim>\<open>spec.Size\<close>. The \<^verbatim>\<open>err\<close> that the type
  switch assigns is not read again: the validation block declares an \<^verbatim>\<open>err\<close> of its own
  and the last statement returns what \<^verbatim>\<open>execute\<close> returns.
\<close>

definition SearchWithSourceStream ::
  "LGrep \<Rightarrow> raw_query \<Rightarrow> SearchOptions option \<Rightarrow> world \<Rightarrow> (error + SearchStream) outcome \<times> world" where
  "SearchWithSourceStream l raw spec w0 =
     (let s = spec_or_default spec;
          search0 = configureSearch s NewSearch
      in case raw_switch l raw of
           None \<Rightarrow> (Exits, w0)
         | Some (query, err) \<Rightarrow>
             let search = search0 @ [CallSource query];
                 w1 = (if QueryDebug s then printQueryDebug (DebugQuery (QueryMapQuery query)) w0 else w0)
             in if \<not> QuerySkipValidate s then
                  (case validate l (QueryMapQuery query) s w1 of
                     ((vresp, Some verr), w2) \<Rightarrow>
                       (Returns (Inl verr),
                        if QueryDebug s then printQueryDebug (DebugResponse vresp) w2 else w2)
                   | ((vresp, None), w2) \<Rightarrow> execute l search (QueryMapQuery query) s w2)
                else execute l search (QueryMapQuery query) s w1)"

definition SearchWithSource ::
  "LGrep \<Rightarrow> raw_query \<Rightarrow> SearchOptions option \<Rightarrow> world \<Rightarrow> (Result list \<times> error option) outcome \<times> world" where
  "SearchWithSource l raw spec w =
     (case SearchWithSourceStream l raw spec w of
        (Returns (Inl err), w1) \<Rightarrow> (Returns ([], Some err), w1)
      | (Returns (Inr stream), w1) \<Rightarrow> (SearchStream_All stream, w1)
      | (Panics, w1) \<Rightarrow> (Panics, w1)
      | (Exits, w1) \<Rightarrow> (Exits, w1))"

section \<open>Observing a run\<close>

text \<open>The engine calls made between the world \<open>w\<close> before an entry point and the world after it.\<close>

definition issued :: "world \<Rightarrow> world \<Rightarrow> engine_call list" where
  "issued w w' = drop (length (requests w)) (requests w')"

text \<open>The free-text expressions a builder was given, oldest first, and those of an engine call.\<close>

fun query_strings :: "SearchService \<Rightarrow> string list" where
  "query_strings [] = []"
| "query_strings (CallQueryString q # calls) = q # query_strings calls"
| "query_strings (c # calls) = query_strings calls"

fun call_query_strings :: "engine_call \<Rightarrow> string list" where
  "call_query_strings (Do search) = query_strings search"
| "call_query_strings (Validate (SearchSourceQuery search) spec) = query_strings search"
| "call_query_strings (Validate (QueryMapQuery m) spec) = []"
| "call_query_strings (Execute search query spec) = query_strings search"

text \<open>
  The spec's reading of a collection-returning entry point (4.4, 8): the outcome of the
  stream entry point followed by \<^verbatim>\<open>All()\<close>. A stream is drained, in its order; an error of
  the stream entry point is handed on with no results; nothing else touches the world.
\<close>

fun drain ::
  "(error + SearchStream) outcome \<times> world \<Rightarrow> (Result list \<times> error option) outcome \<times> world" where
  "drain (Returns (Inr stream), w) = (SearchStream_All stream, w)"
| "drain (Returns (Inl err), w) = (Returns ([], Some err), w)"
| "drain (Panics, w) = (Panics, w)"
| "drain (Exits, w) = (Exits, w)"

section \<open>Sample data\<close>

definition hit_both :: SearchHit where
  "hit_both = \<lparr>hit_Index = ''logs'', hit_Type = ''line'', hit_Id = ''1'',
     hit_Source = Some ''{\"message\":\"boom\"}'',
     hit_Fields = [(''host'', ''[\"a\"]'')]\<rparr>"

definition hit_source_only :: SearchHit where
  "hit_source_only = hit_both\<lparr>hit_Fields := []\<rparr>"

definition hit_bare :: SearchHit where
  "hit_bare = hit_both\<lparr>hit_Source := None, hit_Fields := []\<rparr>"

definition plain_opts :: SearchOptions where
  "plain_opts = \<lparr>Size = 10, Index = '''', Indices = [], SortTime = None, Fields = [],
     RawResult = False, QueryDebug = False, QuerySkipValidate = False\<rparr>"

definition idle :: world where
  "idle = \<lparr>requests = [], debug = []\<rparr>"

text \<open>A decoder that knows two documents and rejects every other text, among them the single opening brace.\<close>

definition sample_Unmarshal :: "json \<Rightarrow> error + QueryMap" where
  "sample_Unmarshal data =
     (if data = ''{}'' then Inr []
      else if data = ''{\"query\":{\"match_all\":{}}}'' then Inr [(''query'', ''{\"match_all\":{}}'')]
      else Inl (JSONSyntaxError ''unexpected end of JSON input''))"

text \<open>An engine that finds every query valid and answers every search with two hits.\<close>

definition accepting :: LGrep where
  "accepting = \<lparr>json_Unmarshal = sample_Unmarshal,
     validate_reply = (\<lambda>query spec. (''{\"valid\":true}'', None)),
     execute_reply = (\<lambda>search query spec. Inr [Some hit_both, Some hit_source_only]),
     do_reply = (\<lambda>search. Inr [Some hit_both, Some hit_source_only])\<rparr>"

text \<open>The same engine, but its validate facility rejects every query.\<close>

definition rejecting :: LGrep where
  "rejecting = accepting\<lparr>validate_reply :=
     (\<lambda>query spec. (''{\"valid\":false}'', Some (EngineError ''invalid query'')))\<rparr>"

section \<open>Properties of the result extractor\<close>

text \<open>
  C3. When \<^verbatim>\<open>RawResult\<close> is set, the extractor returns the \<^verbatim>\<open>HitResult\<close> that wraps the
  whole hit, for every hit (a pointer that is not nil), whatever the hit's field
  projection and source document are and whatever the other options say.
\<close>

theorem extractResult_raw:
  assumes "RawResult spec"
  shows "extractResult (Some h) spec = Returns (Inr (HitResult h))"
  using assms by (simp add: extractResult_def)

theorem extractResult_raw_witness:
  "RawResult (plain_opts\<lparr>RawResult := True, Fields := [''host'']\<rparr>)
   \<and> extractResult (Some hit_both) (plain_opts\<lparr>RawResult := True, Fields := [''host'']\<rparr>)
       = Returns (Inr (HitResult hit_both))
   \<and> extractResult (Some hit_bare) (plain_opts\<lparr>RawResult := True\<rparr>)
       = Returns (Inr (HitResult hit_bare))"
  using extractResult_raw [of "plain_opts\<lparr>RawResult := True, Fields := [''host'']\<rparr>" hit_both]
    extractResult_raw [of "plain_opts\<lparr>RawResult := True\<rparr>" hit_bare]
  by (simp add: plain_opts_def)

text \<open>
  C4. When \<^verbatim>\<open>RawResult\<close> is not set, for every hit (a pointer that is not nil): with a
  non-empty \<^verbatim>\<open>Fields\<close> option and a non-empty
  field projection on the hit the extractor returns the \<^verbatim>\<open>FieldResult\<close>; when either is
  empty it returns the \<^verbatim>\<open>SourceResult\<close> of the hit's source document if there is one, and
  the error "nil document returned" if there is none.
\<close>

theorem extractResult_fields_then_source:
  assumes "\<not> RawResult spec"
  shows "extractResult (Some h) spec =
           (if Fields spec \<noteq> [] \<and> hit_Fields h \<noteq> [] then Returns (Inr (FieldResult (hit_Fields h)))
            else case hit_Source h of
                   Some src \<Rightarrow> Returns (Inr (SourceResult src))
                 | None \<Rightarrow> Returns (Inl ErrNilDocument))"
  using assms by (simp add: extractResult_def extractSource_def split: option.splits)

theorem extractResult_fields_then_source_witness:
  "\<not> RawResult plain_opts
   \<and> extractResult (Some hit_both) (plain_opts\<lparr>Fields := [''host'']\<rparr>)
       = Returns (Inr (FieldResult [(''host'', ''[\"a\"]'')]))
   \<and> extractResult (Some hit_both) plain_opts
       = Returns (Inr (SourceResult ''{\"message\":\"boom\"}''))
   \<and> extractResult (Some hit_source_only) (plain_opts\<lparr>Fields := [''host'']\<rparr>)
       = Returns (Inr (SourceResult ''{\"message\":\"boom\"}''))
   \<and> extractResult (Some hit_bare) (plain_opts\<lparr>Fields := [''host'']\<rparr>)
       = Returns (Inl ErrNilDocument)"
  using extractResult_fields_then_source [of "plain_opts\<lparr>Fields := [''host'']\<rparr>" hit_both]
    extractResult_fields_then_source [of plain_opts hit_both]
    extractResult_fields_then_source [of "plain_opts\<lparr>Fields := [''host'']\<rparr>" hit_source_only]
    extractResult_fields_then_source [of "plain_opts\<lparr>Fields := [''host'']\<rparr>" hit_bare]
  by (simp add: plain_opts_def hit_both_def hit_source_only_def hit_bare_def)

text \<open>
  C10, as the code has it. A nil hit makes \<^verbatim>\<open>extractResult\<close> panic when \<^verbatim>\<open>RawResult\<close> is
  set (at \<^verbatim>\<open>*hit\<close>) and when \<^verbatim>\<open>RawResult\<close> is not set and \<^verbatim>\<open>Fields\<close> is non-empty (at
  \<^verbatim>\<open>hit.Fields\<close>). When \<^verbatim>\<open>RawResult\<close> is not set and \<^verbatim>\<open>Fields\<close> is empty, \<^verbatim>\<open>&&\<close> skips
  \<^verbatim>\<open>hit.Fields\<close>, the guard \<^verbatim>\<open>hit == nil\<close> is reached and the call returns the error
  "nil document returned".
\<close>

theorem extractResult_nil_hit:
  "extractResult None spec =
     (if RawResult spec \<or> Fields spec \<noteq> [] then Panics else Returns (Inl ErrNilDocument))"
  by (simp add: extractResult_def extractSource_def)

theorem extractResult_nil_hit_witness:
  "extractResult None (plain_opts\<lparr>RawResult := True\<rparr>) = Panics
   \<and> extractResult None (plain_opts\<lparr>Fields := [''host'']\<rparr>) = Panics
   \<and> extractResult None plain_opts = Returns (Inl ErrNilDocument)"
  using extractResult_nil_hit [of "plain_opts\<lparr>RawResult := True\<rparr>"]
    extractResult_nil_hit [of "plain_opts\<lparr>Fields := [''host'']\<rparr>"]
    extractResult_nil_hit [of plain_opts]
  by (simp add: plain_opts_def)

text \<open>
  C10 as stated fails at the nil hit with the options \<^verbatim>\<open>{Size: 10}\<close> (no \<^verbatim>\<open>RawResult\<close>, no
  \<^verbatim>\<open>Fields\<close>): the call does not panic; the nil half of the guard is what returns the error.
\<close>

theorem extractResult_nil_hit_counterexample:
  "extractResult None plain_opts \<noteq> Panics
   \<and> extractResult None plain_opts = Returns (Inl ErrNilDocument)"
  by (simp add: extractResult_def extractSource_def plain_opts_def)

section \<open>Properties of the request builder\<close>

lemma query_strings_append: "query_strings (xs @ ys) = query_strings xs @ query_strings ys"
  by (induction xs rule: query_strings.induct) simp_all

lemma query_strings_apply: "query_strings (SearchOptions_apply s search) = query_strings search"
  by (simp add: SearchOptions_apply_def SortByTimestamp_def Let_def query_strings_append
      split: option.splits)

text \<open>
  C8. \<^verbatim>\<open>apply\<close> leaves the calls already made on the builder as they are and adds, in this
  order: the size if \<^verbatim>\<open>Size\<close> is not 0; the single index if \<^verbatim>\<open>Index\<close> is not the empty
  string; the index list if \<^verbatim>\<open>Indices\<close> is not empty (after the single index when both are
  set); the sort by timestamp if \<^verbatim>\<open>SortTime\<close> is not nil. It has no error to return: its
  result is the builder.
\<close>

theorem SearchOptions_apply_in_order:
  "SearchOptions_apply s search =
     search
     @ (if Size s \<noteq> 0 then [CallSize (Size s)] else [])
     @ (if Index s \<noteq> [] then [CallIndex [Index s]] else [])
     @ (if Indices s \<noteq> [] then [CallIndex (Indices s)] else [])
     @ (case SortTime s of None \<Rightarrow> [] | Some asc \<Rightarrow> [CallSortByTimestamp asc])"
  by (simp add: SearchOptions_apply_def SortByTimestamp_def Let_def split: option.splits)

theorem SearchOptions_apply_in_order_witness:
  "SearchOptions_apply (plain_opts\<lparr>Index := ''logs'', Indices := [''a'', ''b''], SortTime := Some True\<rparr>)
       [CallQueryString ''error'']
     = [CallQueryString ''error'', CallSize 10, CallIndex [''logs''], CallIndex [''a'', ''b''],
        CallSortByTimestamp True]
   \<and> SearchOptions_apply (plain_opts\<lparr>Size := 0\<rparr>) [CallQueryString ''error'']
     = [CallQueryString ''error'']"
  using SearchOptions_apply_in_order
      [of "plain_opts\<lparr>Index := ''logs'', Indices := [''a'', ''b''], SortTime := Some True\<rparr>"
          "[CallQueryString ''error'']"]
    SearchOptions_apply_in_order [of "plain_opts\<lparr>Size := 0\<rparr>" "[CallQueryString ''error'']"]
  by (simp add: plain_opts_def)

section \<open>What an entry point returns and which engine calls it makes\<close>

lemma issued_same: "issued w w = []"
  by (simp add: issued_def)

lemma submit_result:
  "fst (SimpleSearchStream_submit l search s w) =
     (let b = configureSearch s search in
      case (if QuerySkipValidate s then None else snd (validate_reply l (SearchSourceQuery b) s)) of
        Some e \<Rightarrow> Returns (Inl e)
      | None \<Rightarrow>
         (case execute_reply l b (SearchSourceQuery b) s of
            Inl e \<Rightarrow> Returns (Inl e)
          | Inr hits \<Rightarrow> Returns (Inr \<lparr>stream_hits = hits, stream_spec = s\<rparr>)))"
  by (auto simp add: SimpleSearchStream_submit_def validate_def execute_def Let_def
      split: prod.splits option.splits sum.splits)

lemma submit_issued:
  "issued w (snd (SimpleSearchStream_submit l search s w)) =
     (let b = configureSearch s search in
      if QuerySkipValidate s then [Execute b (SearchSourceQuery b) s]
      else if snd (validate_reply l (SearchSourceQuery b) s) = None
           then [Validate (SearchSourceQuery b) s, Execute b (SearchSourceQuery b) s]
           else [Validate (SearchSourceQuery b) s])"
  by (auto simp add: SimpleSearchStream_submit_def issued_def validate_def execute_def
      printQueryDebug_def Let_def split: prod.splits option.splits sum.splits)

lemma stream_result:
  "fst (SimpleSearchStream l q spec w) =
     (if q = [] then Returns (Inl ErrEmptySearch)
      else if spec \<noteq> None \<and> Size (spec_or_default spec) = 0 then Returns (Inl ErrZeroSize)
      else fst (SimpleSearchStream_submit l (SearchWithLucene NewSearch q) (spec_or_default spec) w))"
  by (simp add: SimpleSearchStream_def spec_or_default_def Let_def split: option.splits)

lemma stream_issued:
  "issued w (snd (SimpleSearchStream l q spec w)) =
     (if q = [] then []
      else if spec \<noteq> None \<and> Size (spec_or_default spec) = 0 then []
      else issued w (snd (SimpleSearchStream_submit l (SearchWithLucene NewSearch q)
             (spec_or_default spec) w)))"
  by (simp add: SimpleSearchStream_def spec_or_default_def Let_def issued_same split: option.splits)

lemma source_result:
  "fst (SearchWithSourceStream l raw spec w) =
     (case raw_switch l raw of
        None \<Rightarrow> Exits
      | Some (query, err) \<Rightarrow>
         (let s = spec_or_default spec; b = configureSearch s NewSearch @ [CallSource query] in
          case (if QuerySkipValidate s then None else snd (validate_reply l (QueryMapQuery query) s)) of
            Some e \<Rightarrow> Returns (Inl e)
          | None \<Rightarrow>
             (case execute_reply l b (QueryMapQuery query) s of
                Inl e \<Rightarrow> Returns (Inl e)
              | Inr hits \<Rightarrow> Returns (Inr \<lparr>stream_hits = hits, stream_spec = s\<rparr>))))"
  by (auto simp add: SearchWithSourceStream_def validate_def execute_def Let_def
      split: prod.splits option.splits sum.splits)

lemma source_issued:
  "issued w (snd (SearchWithSourceStream l raw spec w)) =
     (case raw_switch l raw of
        None \<Rightarrow> []
      | Some (query, err) \<Rightarrow>
         (let s = spec_or_default spec; b = configureSearch s NewSearch @ [CallSource query] in
          if QuerySkipValidate s then [Execute b (QueryMapQuery query) s]
          else if snd (validate_reply l (QueryMapQuery query) s) = None
               then [Validate (QueryMapQuery query) s, Execute b (QueryMapQuery query) s]
               else [Validate (QueryMapQuery query) s]))"
  by (auto simp add: SearchWithSourceStream_def issued_def validate_def execute_def
      printQueryDebug_def Let_def split: prod.splits option.splits sum.splits)

lemma SimpleSearch_world: "snd (SimpleSearch l q spec w) = snd (SimpleSearchStream l q spec w)"
  by (simp add: SimpleSearch_def split: prod.splits outcome.splits sum.splits)

lemma SearchWithSource_world:
  "snd (SearchWithSource l raw spec w) = snd (SearchWithSourceStream l raw spec w)"
  by (simp add: SearchWithSource_def split: prod.splits outcome.splits sum.splits)

lemma SimpleSearch_error:
  "fst (SimpleSearchStream l q spec w) = Returns (Inl e)
   \<Longrightarrow> fst (SimpleSearch l q spec w) = Returns ([], Some e)"
  by (cases "SimpleSearchStream l q spec w") (auto simp add: SimpleSearch_def)

lemma SearchWithSource_error:
  "fst (SearchWithSourceStream l raw spec w) = Returns (Inl e)
   \<Longrightarrow> fst (SearchWithSource l raw spec w) = Returns ([], Some e)"
  by (cases "SearchWithSourceStream l raw spec w") (auto simp add: SearchWithSource_def)

lemma early_issued:
  "issued w (snd (submit_early l search s w)) = [Do (SearchOptions_apply s search)]"
  by (simp add: submit_early_def issued_def printQueryDebug_def Let_def
      split: sum.splits outcome.splits)

lemma SimpleSearch_early_issued:
  "issued w (snd (SimpleSearch_early l q spec w)) =
     (if q = [] \<or> (spec \<noteq> None \<and> Size (spec_or_default spec) = 0) then []
      else [Do (SearchOptions_apply (spec_or_default spec) (SearchWithLucene NewSearch q))])"
  by (simp add: SimpleSearch_early_def spec_or_default_def early_issued issued_same Let_def
      split: option.splits)

lemma stream_validation:
  "(\<not> QuerySkipValidate (spec_or_default spec) \<and>
      Validate qq ss \<in> set (issued w (snd (SimpleSearchStream l q spec w))) \<and>
      snd (validate_reply l qq ss) = Some e \<longrightarrow>
        fst (SimpleSearchStream l q spec w) = Returns (Inl e) \<and>
        \<not> list_ex is_Execute (issued w (snd (SimpleSearchStream l q spec w))))
   \<and> (QuerySkipValidate (spec_or_default spec) \<longrightarrow>
        \<not> list_ex is_Validate (issued w (snd (SimpleSearchStream l q spec w))))"
  by (auto simp add: stream_issued stream_result submit_issued submit_result Let_def
      split: if_splits)

lemma source_validation:
  "(\<not> QuerySkipValidate (spec_or_default spec) \<and>
      Validate qq ss \<in> set (issued w (snd (SearchWithSourceStream l raw spec w))) \<and>
      snd (validate_reply l qq ss) = Some e \<longrightarrow>
        fst (SearchWithSourceStream l raw spec w) = Returns (Inl e) \<and>
        \<not> list_ex is_Execute (issued w (snd (SearchWithSourceStream l raw spec w))))
   \<and> (QuerySkipValidate (spec_or_default spec) \<longrightarrow>
        \<not> list_ex is_Validate (issued w (snd (SearchWithSourceStream l raw spec w))))"
  by (auto simp add: source_issued source_result Let_def split: if_splits option.splits)

section \<open>The zero size\<close>

text \<open>
  C1, as the code has it. With \<^verbatim>\<open>Size == 0\<close> in the options, \<^verbatim>\<open>SimpleSearchStream\<close> and
  \<^verbatim>\<open>SimpleSearch\<close> return \<^verbatim>\<open>ErrZeroSize\<close> for a non-empty query and \<^verbatim>\<open>ErrEmptySearch\<close> for
  the empty one, and leave the world as it was: neither \<^verbatim>\<open>validate\<close> nor \<^verbatim>\<open>execute\<close> is
  called. In the earlier revision \<^verbatim>\<open>SimpleSearch\<close> and \<^verbatim>\<open>SearchWithSource\<close> return the empty
  list of documents with a nil error (\<^verbatim>\<open>ErrEmptySearch\<close> for the empty query) and never
  call \<^verbatim>\<open>search.Do()\<close>. Nothing is said of \<^verbatim>\<open>SearchWithSourceStream\<close>, which does not look
  at the size.
\<close>

theorem zero_size_not_submitted:
  assumes "Size s = 0"
  shows "SimpleSearchStream l q (Some s) w
           = (Returns (Inl (if q = [] then ErrEmptySearch else ErrZeroSize)), w)
       \<and> SimpleSearch l q (Some s) w
           = (Returns ([], Some (if q = [] then ErrEmptySearch else ErrZeroSize)), w)
       \<and> SimpleSearch_early l q (Some s) w
           = (Returns ([], if q = [] then Some ErrEmptySearch else None), w)
       \<and> SearchWithSource_early l source (Some s) w = (Returns ([], None), w)"
  using assms
  by (simp add: SimpleSearchStream_def SimpleSearch_def SimpleSearch_early_def
      SearchWithSource_early_def Let_def)

theorem zero_size_not_submitted_witness:
  "Size (plain_opts\<lparr>Size := 0\<rparr>) = 0
   \<and> SimpleSearchStream accepting ''error'' (Some (plain_opts\<lparr>Size := 0\<rparr>)) idle
       = (Returns (Inl ErrZeroSize), idle)
   \<and> SimpleSearch accepting ''error'' (Some (plain_opts\<lparr>Size := 0\<rparr>)) idle
       = (Returns ([], Some ErrZeroSize), idle)
   \<and> SimpleSearch_early accepting ''error'' (Some (plain_opts\<lparr>Size := 0\<rparr>)) idle
       = (Returns ([], None), idle)
   \<and> SearchWithSource_early accepting [] (Some (plain_opts\<lparr>Size := 0\<rparr>)) idle
       = (Returns ([], None), idle)"
  using zero_size_not_submitted [of "plain_opts\<lparr>Size := 0\<rparr>" accepting "''error''" idle "[]"]
  by (simp add: plain_opts_def)

text \<open>
  C1 as stated fails at two inputs, both with the options \<^verbatim>\<open>{Size: 0}\<close>.
  \<^verbatim>\<open>SimpleSearchStream\<close> with the empty query returns \<^verbatim>\<open>ErrEmptySearch\<close>, not \<^verbatim>\<open>ErrZeroSize\<close>.
  \<^verbatim>\<open>SearchWithSourceStream\<close> with the empty query map, on an engine that rejects it, sends
  the validate request and returns the engine's error.
\<close>

theorem zero_size_counterexample:
  "SimpleSearchStream accepting [] (Some (plain_opts\<lparr>Size := 0\<rparr>)) idle
     = (Returns (Inl ErrEmptySearch), idle)
   \<and> SearchWithSourceStream rejecting (TypedQueryMap []) (Some (plain_opts\<lparr>Size := 0\<rparr>)) idle
     = (Returns (Inl (EngineError ''invalid query'')),
        \<lparr>requests = [Validate (QueryMapQuery []) (plain_opts\<lparr>Size := 0\<rparr>)], debug = []\<rparr>)"
  by (simp add: SimpleSearchStream_def SearchWithSourceStream_def raw_switch_def spec_or_default_def
      validate_def rejecting_def accepting_def plain_opts_def idle_def Let_def)

section \<open>A raw query that does not parse\<close>

text \<open>
  Whatever error \<^verbatim>\<open>QueryMapFromJSON\<close> returns for the bytes, \<^verbatim>\<open>SearchWithSourceStream\<close>
  behaves as if it had been given the map that came with the error.
\<close>

lemma raw_bytes_error_unread:
  assumes "QueryMapFromJSON l v = (m, err)"
  shows "SearchWithSourceStream l (ByteSlice v) spec w
           = SearchWithSourceStream l (TypedQueryMap m) spec w"
    and "SearchWithSourceStream l (RawMessage v) spec w
           = SearchWithSourceStream l (TypedQueryMap m) spec w"
  using assms by (simp_all add: SearchWithSourceStream_def raw_switch_def)

text \<open>
  C2 at a failing input. The bytes are the single opening brace, which the decoder
  rejects; the options are \<^verbatim>\<open>{Size: 10}\<close>, so validation is not skipped; the engine finds
  the empty query valid. \<^verbatim>\<open>SearchWithSourceStream\<close> validates the empty query map, calls
  \<^verbatim>\<open>execute\<close> and returns the stream: the error of the decoder reaches nobody.
\<close>

theorem invalid_json_is_executed:
  "QueryMapFromJSON accepting ''{'' = ([], Some (JSONSyntaxError ''unexpected end of JSON input''))
   \<and> SearchWithSourceStream accepting (ByteSlice ''{'') (Some plain_opts) idle
     = (Returns (Inr \<lparr>stream_hits = [Some hit_both, Some hit_source_only], stream_spec = plain_opts\<rparr>),
        \<lparr>requests = [Validate (QueryMapQuery []) plain_opts,
                      Execute [CallSize 10, CallSource []] (QueryMapQuery []) plain_opts],
         debug = []\<rparr>)"
  by (simp add: SearchWithSourceStream_def raw_switch_def QueryMapFromJSON_def sample_Unmarshal_def
      spec_or_default_def configureSearch_def SearchOptions_apply_def NewSearch_def
      validate_def execute_def accepting_def plain_opts_def idle_def Let_def)

section \<open>Validation before execution\<close>

text \<open>
  C5. For each of the four entry points of the later revision, with the options it goes
  on with (the caller's, or \<^verbatim>\<open>DefaultSpec\<close> for nil): when \<^verbatim>\<open>QuerySkipValidate\<close> is false and
  a validate call it made was answered with an error, the entry point returns that error
  and made no \<^verbatim>\<open>execute\<close> call; when \<^verbatim>\<open>QuerySkipValidate\<close> is true it made no validate call.
\<close>

theorem validation_before_execute:
  "(\<not> QuerySkipValidate (spec_or_default spec) \<and>
      Validate qq ss \<in> set (issued w (snd (SimpleSearchStream l q spec w))) \<and>
      snd (validate_reply l qq ss) = Some e \<longrightarrow>
        fst (SimpleSearchStream l q spec w) = Returns (Inl e) \<and>
        fst (SimpleSearch l q spec w) = Returns ([], Some e) \<and>
        \<not> list_ex is_Execute (issued w (snd (SimpleSearch l q spec w))))
   \<and> (\<not> QuerySkipValidate (spec_or_default spec) \<and>
      Validate qq ss \<in> set (issued w (snd (SearchWithSourceStream l raw spec w))) \<and>
      snd (validate_reply l qq ss) = Some e \<longrightarrow>
        fst (SearchWithSourceStream l raw spec w) = Returns (Inl e) \<and>
        fst (SearchWithSource l raw spec w) = Returns ([], Some e) \<and>
        \<not> list_ex is_Execute (issued w (snd (SearchWithSource l raw spec w))))
   \<and> (QuerySkipValidate (spec_or_default spec) \<longrightarrow>
        \<not> list_ex is_Validate (issued w (snd (SimpleSearch l q spec w))) \<and>
        \<not> list_ex is_Validate (issued w (snd (SearchWithSource l raw spec w))))"
proof (intro conjI impI)
  assume a: "\<not> QuerySkipValidate (spec_or_default spec) \<and>
      Validate qq ss \<in> set (issued w (snd (SimpleSearchStream l q spec w))) \<and>
      snd (validate_reply l qq ss) = Some e"
  with stream_validation [of spec qq ss w l q e]
  have r: "fst (SimpleSearchStream l q spec w) = Returns (Inl e)"
    and x: "\<not> list_ex is_Execute (issued w (snd (SimpleSearchStream l q spec w)))"
    by blast+
  show "fst (SimpleSearchStream l q spec w) = Returns (Inl e)"
    by (rule r)
  show "fst (SimpleSearch l q spec w) = Returns ([], Some e)"
    by (rule SimpleSearch_error [OF r])
  show "\<not> list_ex is_Execute (issued w (snd (SimpleSearch l q spec w)))"
    using x by (simp add: SimpleSearch_world)
next
  assume a: "\<not> QuerySkipValidate (spec_or_default spec) \<and>
      Validate qq ss \<in> set (issued w (snd (SearchWithSourceStream l raw spec w))) \<and>
      snd (validate_reply l qq ss) = Some e"
  with source_validation [of spec qq ss w l raw e]
  have r: "fst (SearchWithSourceStream l raw spec w) = Returns (Inl e)"
    and x: "\<not> list_ex is_Execute (issued w (snd (SearchWithSourceStream l raw spec w)))"
    by blast+
  show "fst (SearchWithSourceStream l raw spec w) = Returns (Inl e)"
    by (rule r)
  show "fst (SearchWithSource l raw spec w) = Returns ([], Some e)"
    by (rule SearchWithSource_error [OF r])
  show "\<not> list_ex is_Execute (issued w (snd (SearchWithSource l raw spec w)))"
    using x by (simp add: SearchWithSource_world)
next
  assume s: "QuerySkipValidate (spec_or_default spec)"
  show "\<not> list_ex is_Validate (issued w (snd (SimpleSearch l q spec w)))"
    using s stream_validation [of spec qq ss w l q e] by (simp add: SimpleSearch_world)
  show "\<not> list_ex is_Validate (issued w (snd (SearchWithSource l raw spec w)))"
    using s source_validation [of spec qq ss w l raw e] by (simp add: SearchWithSource_world)
qed

theorem validation_before_execute_witness:
  "Validate (SearchSourceQuery [CallQueryString ''error'', CallSize 10]) plain_opts
     \<in> set (issued idle (snd (SimpleSearchStream rejecting ''error'' (Some plain_opts) idle)))
   \<and> SimpleSearch rejecting ''error'' (Some plain_opts) idle
       = (Returns ([], Some (EngineError ''invalid query'')),
          \<lparr>requests = [Validate (SearchSourceQuery [CallQueryString ''error'', CallSize 10]) plain_opts],
           debug = []\<rparr>)
   \<and> Validate (QueryMapQuery []) plain_opts
     \<in> set (issued idle (snd (SearchWithSourceStream rejecting (TypedQueryMap []) (Some plain_opts) idle)))
   \<and> SearchWithSource rejecting (TypedQueryMap []) (Some plain_opts) idle
       = (Returns ([], Some (EngineError ''invalid query'')),
          \<lparr>requests = [Validate (QueryMapQuery []) plain_opts], debug = []\<rparr>)
   \<and> requests (snd (SimpleSearch rejecting ''error'' (Some (plain_opts\<lparr>QuerySkipValidate := True\<rparr>)) idle))
       = [Execute [CallQueryString ''error'', CallSize 10]
            (SearchSourceQuery [CallQueryString ''error'', CallSize 10])
            (plain_opts\<lparr>QuerySkipValidate := True\<rparr>)]"
  using validation_before_execute [of "Some plain_opts" "SearchSourceQuery [CallQueryString ''error'', CallSize 10]"
      plain_opts idle rejecting "''error''" "EngineError ''invalid query''" "TypedQueryMap []"]
    validation_before_execute [of "Some (plain_opts\<lparr>QuerySkipValidate := True\<rparr>)" "QueryMapQuery []"
      plain_opts idle rejecting "''error''" "EngineError ''invalid query''" "TypedQueryMap []"]
  by (simp add: SimpleSearch_def SimpleSearchStream_def SimpleSearchStream_submit_def
      SearchWithSource_def SearchWithSourceStream_def raw_switch_def
      SearchWithLucene_def NewSearch_def configureSearch_def SearchOptions_apply_def
      spec_or_default_def validate_def execute_def issued_def
      rejecting_def accepting_def plain_opts_def idle_def Let_def)

section \<open>The free-text query\<close>

text \<open>
  C6. With the empty query string \<^verbatim>\<open>SimpleSearchStream\<close> and \<^verbatim>\<open>SimpleSearch\<close> (of both
  revisions) return \<^verbatim>\<open>ErrEmptySearch\<close> and leave the world as it was, whatever the options
  are. With a non-empty query \<open>q\<close>, every engine call they make carries a builder whose
  only free-text expression is \<open>q\<close> itself: no other expression takes its place.
\<close>

theorem empty_query_rejected_query_kept:
  "SimpleSearchStream l [] spec w = (Returns (Inl ErrEmptySearch), w)
   \<and> SimpleSearch l [] spec w = (Returns ([], Some ErrEmptySearch), w)
   \<and> SimpleSearch_early l [] spec w = (Returns ([], Some ErrEmptySearch), w)
   \<and> (q \<noteq> [] \<longrightarrow>
        list_all (\<lambda>c. call_query_strings c = [q]) (issued w (snd (SimpleSearchStream l q spec w)))
      \<and> list_all (\<lambda>c. call_query_strings c = [q]) (issued w (snd (SimpleSearch l q spec w)))
      \<and> list_all (\<lambda>c. call_query_strings c = [q]) (issued w (snd (SimpleSearch_early l q spec w))))"
proof (intro conjI impI)
  show "SimpleSearchStream l [] spec w = (Returns (Inl ErrEmptySearch), w)"
    by (simp add: SimpleSearchStream_def)
  then show "SimpleSearch l [] spec w = (Returns ([], Some ErrEmptySearch), w)"
    by (simp add: SimpleSearch_def)
  show "SimpleSearch_early l [] spec w = (Returns ([], Some ErrEmptySearch), w)"
    by (simp add: SimpleSearch_early_def)
next
  assume q: "q \<noteq> []"
  have b: "query_strings (configureSearch s (SearchWithLucene NewSearch q)) = [q]" for s
    by (simp add: configureSearch_def query_strings_apply SearchWithLucene_def NewSearch_def)
  show s: "list_all (\<lambda>c. call_query_strings c = [q]) (issued w (snd (SimpleSearchStream l q spec w)))"
    using q b by (simp add: stream_issued submit_issued Let_def)
  then show "list_all (\<lambda>c. call_query_strings c = [q]) (issued w (snd (SimpleSearch l q spec w)))"
    by (simp add: SimpleSearch_world)
  show "list_all (\<lambda>c. call_query_strings c = [q]) (issued w (snd (SimpleSearch_early l q spec w)))"
    using q b by (simp add: SimpleSearch_early_issued configureSearch_def)
qed

theorem empty_query_rejected_query_kept_witness:
  "SimpleSearch accepting [] (Some plain_opts) idle = (Returns ([], Some ErrEmptySearch), idle)
   \<and> issued idle (snd (SimpleSearchStream accepting ''error'' (Some plain_opts) idle))
       = [Validate (SearchSourceQuery [CallQueryString ''error'', CallSize 10]) plain_opts,
          Execute [CallQueryString ''error'', CallSize 10]
            (SearchSourceQuery [CallQueryString ''error'', CallSize 10]) plain_opts]
   \<and> list_all (\<lambda>c. call_query_strings c = [''error''])
        (issued idle (snd (SimpleSearchStream accepting ''error'' (Some plain_opts) idle)))
   \<and> issued idle (snd (SimpleSearch_early accepting ''error'' None idle))
       = [Do [CallQueryString ''error'', CallSize 100, CallSortByTimestamp False]]"
  using empty_query_rejected_query_kept [of accepting "Some plain_opts" idle "''error''"]
    empty_query_rejected_query_kept [of accepting None idle "''error''"]
  by (simp add: SimpleSearchStream_def SimpleSearchStream_submit_def SimpleSearch_early_def submit_early_def
      SearchWithLucene_def NewSearch_def configureSearch_def SearchOptions_apply_def SortByTimestamp_def
      DefaultSpec_def SortDesc_def validate_def execute_def issued_def printQueryDebug_def
      accepting_def plain_opts_def idle_def hit_both_def hit_source_only_def Let_def)

section \<open>Collections and streams\<close>

text \<open>
  Draining keeps the order of the hits: when \<^verbatim>\<open>All()\<close> returns no error, its results are
  the extractions of the stream's hits, one for one and in the same order.
\<close>

lemma consumeResults_loop_in_order:
  "consumeResults_loop hits spec acc = Returns (rs, None)
   \<Longrightarrow> \<exists>rs'. rs = acc @ rs' \<and> list_all2 (\<lambda>h r. extractResult h spec = Returns (Inr r)) hits rs'"
proof (induction hits arbitrary: acc)
  case Nil
  then show ?case by simp
next
  case (Cons h hits)
  from Cons.prems obtain r where r: "extractResult h spec = Returns (Inr r)"
    and rest: "consumeResults_loop hits spec (acc @ [r]) = Returns (rs, None)"
    by (auto split: outcome.splits sum.splits)
  from Cons.IH [OF rest] obtain rs' where "rs = (acc @ [r]) @ rs'"
    and "list_all2 (\<lambda>h r. extractResult h spec = Returns (Inr r)) hits rs'"
    by blast
  with r show ?case by (intro exI [of _ "r # rs'"]) simp
qed

lemma SearchStream_All_in_order:
  "SearchStream_All stream = Returns (rs, None)
   \<Longrightarrow> list_all2 (\<lambda>h r. extractResult h (stream_spec stream) = Returns (Inr r)) (stream_hits stream) rs"
  using consumeResults_loop_in_order [of "stream_hits stream" "stream_spec stream" "[]" rs]
  by (simp add: SearchStream_All_def consumeResults_def)

text \<open>
  C7. \<^verbatim>\<open>SimpleSearch\<close> is \<^verbatim>\<open>SimpleSearchStream\<close> followed by \<^verbatim>\<open>All()\<close>, and \<^verbatim>\<open>SearchWithSource\<close> is
  \<^verbatim>\<open>SearchWithSourceStream\<close> followed by \<^verbatim>\<open>All()\<close>: the same results in the same order, the
  same error, the same engine calls, for every query, raw query, options and engine.
\<close>

theorem collection_is_drained_stream:
  "SimpleSearch l q spec w = drain (SimpleSearchStream l q spec w)
   \<and> SearchWithSource l raw spec w = drain (SearchWithSourceStream l raw spec w)"
proof
  show "SimpleSearch l q spec w = drain (SimpleSearchStream l q spec w)"
    by (cases "SimpleSearchStream l q spec w" rule: drain.cases) (simp_all add: SimpleSearch_def)
  show "SearchWithSource l raw spec w = drain (SearchWithSourceStream l raw spec w)"
    by (cases "SearchWithSourceStream l raw spec w" rule: drain.cases)
      (simp_all add: SearchWithSource_def)
qed

theorem collection_is_drained_stream_witness:
  "SimpleSearch accepting ''error'' (Some plain_opts) idle
     = (Returns ([SourceResult ''{\"message\":\"boom\"}'', SourceResult ''{\"message\":\"boom\"}''], None),
        snd (SimpleSearchStream accepting ''error'' (Some plain_opts) idle))
   \<and> drain (SimpleSearchStream accepting ''error'' (Some plain_opts) idle)
     = (Returns ([SourceResult ''{\"message\":\"boom\"}'', SourceResult ''{\"message\":\"boom\"}''], None),
        snd (SimpleSearchStream accepting ''error'' (Some plain_opts) idle))
   \<and> SearchWithSource rejecting (TypedQueryMap []) (Some plain_opts) idle
     = (Returns ([], Some (EngineError ''invalid query'')),
        snd (SearchWithSourceStream rejecting (TypedQueryMap []) (Some plain_opts) idle))
   \<and> drain (SearchWithSourceStream accepting (TypedQueryMap []) (Some (plain_opts\<lparr>Fields := [''host'']\<rparr>)) idle)
     = (Returns ([FieldResult [(''host'', ''[\"a\"]'')], SourceResult ''{\"message\":\"boom\"}''], None),
        snd (SearchWithSource accepting (TypedQueryMap []) (Some (plain_opts\<lparr>Fields := [''host'']\<rparr>)) idle))"
  using collection_is_drained_stream [of accepting "''error''" "Some plain_opts" idle "TypedQueryMap []"]
    collection_is_drained_stream [of rejecting "''error''" "Some plain_opts" idle "TypedQueryMap []"]
    collection_is_drained_stream
      [of accepting "''error''" "Some (plain_opts\<lparr>Fields := [''host'']\<rparr>)" idle "TypedQueryMap []"]
  by (simp add: SimpleSearchStream_def SimpleSearchStream_submit_def
      SearchWithSourceStream_def raw_switch_def
      SearchWithLucene_def NewSearch_def configureSearch_def SearchOptions_apply_def
      spec_or_default_def validate_def execute_def
      SearchStream_All_def consumeResults_def extractResult_def extractSource_def
      rejecting_def accepting_def plain_opts_def idle_def hit_both_def hit_source_only_def Let_def)

section \<open>The default options\<close>

text \<open>
  C9. Every entry point, of either revision, does with a nil options pointer exactly
  what it does with a pointer to \<^verbatim>\<open>DefaultSpec\<close>, which is \<^verbatim>\<open>{Size: 100, SortTime: SortDesc}\<close>
  with every other field zero. So a nil-options search is not refused for its size and
  dereferences no nil pointer: with a non-empty query (or a raw query of a known type)
  that the engine finds valid, the request handed to \<^verbatim>\<open>execute\<close> (to \<^verbatim>\<open>search.Do()\<close> in the
  earlier revision) has size 100 and the descending sort by timestamp, under the options
  \<^verbatim>\<open>DefaultSpec\<close>.
\<close>

theorem nil_spec_is_DefaultSpec:
  "SimpleSearchStream l q None w = SimpleSearchStream l q (Some DefaultSpec) w
   \<and> SimpleSearch l q None w = SimpleSearch l q (Some DefaultSpec) w
   \<and> SearchWithSourceStream l raw None w = SearchWithSourceStream l raw (Some DefaultSpec) w
   \<and> SearchWithSource l raw None w = SearchWithSource l raw (Some DefaultSpec) w
   \<and> SimpleSearch_early l q None w = SimpleSearch_early l q (Some DefaultSpec) w
   \<and> SearchWithSource_early l source None w = SearchWithSource_early l source (Some DefaultSpec) w
   \<and> DefaultSpec = \<lparr>Size = 100, Index = [], Indices = [], SortTime = SortDesc, Fields = [],
        RawResult = False, QueryDebug = False, QuerySkipValidate = False\<rparr>
   \<and> (q \<noteq> [] \<and> snd (validate_reply l
          (SearchSourceQuery [CallQueryString q, CallSize 100, CallSortByTimestamp False]) DefaultSpec) = None \<longrightarrow>
        issued w (snd (SimpleSearch l q None w)) =
          [Validate (SearchSourceQuery [CallQueryString q, CallSize 100, CallSortByTimestamp False]) DefaultSpec,
           Execute [CallQueryString q, CallSize 100, CallSortByTimestamp False]
             (SearchSourceQuery [CallQueryString q, CallSize 100, CallSortByTimestamp False]) DefaultSpec])
   \<and> (raw_switch l raw = Some (query, err) \<and> snd (validate_reply l (QueryMapQuery query) DefaultSpec) = None \<longrightarrow>
        issued w (snd (SearchWithSource l raw None w)) =
          [Validate (QueryMapQuery query) DefaultSpec,
           Execute [CallSize 100, CallSortByTimestamp False, CallSource query] (QueryMapQuery query) DefaultSpec])
   \<and> (q \<noteq> [] \<longrightarrow>
        issued w (snd (SimpleSearch_early l q None w)) =
          [Do [CallQueryString q, CallSize 100, CallSortByTimestamp False]])
   \<and> issued w (snd (SearchWithSource_early l source None w)) = [Do [CallSize 100, CallSortByTimestamp False]]"
proof -
  have d: "Size DefaultSpec \<noteq> 0" "\<not> QuerySkipValidate DefaultSpec"
    by (simp_all add: DefaultSpec_def)
  have c: "configureSearch DefaultSpec search = search @ [CallSize 100, CallSortByTimestamp False]"
    for search
    by (simp add: configureSearch_def SearchOptions_apply_def SortByTimestamp_def DefaultSpec_def
        SortDesc_def)
  have s1: "SimpleSearchStream l q None w = SimpleSearchStream l q (Some DefaultSpec) w"
    using d by (simp add: SimpleSearchStream_def)
  have s2: "SearchWithSourceStream l raw None w = SearchWithSourceStream l raw (Some DefaultSpec) w"
    by (simp add: SearchWithSourceStream_def spec_or_default_def)
  have e1: "SimpleSearch_early l q None w = SimpleSearch_early l q (Some DefaultSpec) w"
    using d by (simp add: SimpleSearch_early_def)
  have e2: "SearchWithSource_early l source None w = SearchWithSource_early l source (Some DefaultSpec) w"
    using d by (simp add: SearchWithSource_early_def)
  have i1: "issued w (snd (SimpleSearch l q None w)) =
          [Validate (SearchSourceQuery [CallQueryString q, CallSize 100, CallSortByTimestamp False]) DefaultSpec,
           Execute [CallQueryString q, CallSize 100, CallSortByTimestamp False]
             (SearchSourceQuery [CallQueryString q, CallSize 100, CallSortByTimestamp False]) DefaultSpec]"
    if "q \<noteq> [] \<and> snd (validate_reply l
          (SearchSourceQuery [CallQueryString q, CallSize 100, CallSortByTimestamp False]) DefaultSpec) = None"
    using that d
    by (simp add: SimpleSearch_world stream_issued submit_issued c spec_or_default_def
        SearchWithLucene_def NewSearch_def Let_def)
  have i2: "issued w (snd (SearchWithSource l raw None w)) =
          [Validate (QueryMapQuery query) DefaultSpec,
           Execute [CallSize 100, CallSortByTimestamp False, CallSource query] (QueryMapQuery query) DefaultSpec]"
    if "raw_switch l raw = Some (query, err) \<and> snd (validate_reply l (QueryMapQuery query) DefaultSpec) = None"
    using that d
    by (simp add: SearchWithSource_world source_issued c spec_or_default_def NewSearch_def Let_def)
  have i3: "issued w (snd (SimpleSearch_early l q None w)) =
          [Do [CallQueryString q, CallSize 100, CallSortByTimestamp False]]" if "q \<noteq> []"
    using that c [of "[CallQueryString q]"]
    by (simp add: SimpleSearch_early_issued spec_or_default_def configureSearch_def
        SearchWithLucene_def NewSearch_def)
  have i4: "issued w (snd (SearchWithSource_early l source None w)) = [Do [CallSize 100, CallSortByTimestamp False]]"
    using c [of "[]"]
    by (simp add: SearchWithSource_early_def early_issued configureSearch_def NewSearch_def)
  show ?thesis
    using s1 s2 e1 e2 i1 i2 i3 i4
    by (simp add: SimpleSearch_def SearchWithSource_def DefaultSpec_def)
qed

theorem nil_spec_is_DefaultSpec_witness:
  "SimpleSearch accepting ''error'' None idle
     = (Returns ([SourceResult ''{\"message\":\"boom\"}'', SourceResult ''{\"message\":\"boom\"}''], None),
        \<lparr>requests =
           [Validate (SearchSourceQuery [CallQueryString ''error'', CallSize 100, CallSortByTimestamp False]) DefaultSpec,
            Execute [CallQueryString ''error'', CallSize 100, CallSortByTimestamp False]
              (SearchSourceQuery [CallQueryString ''error'', CallSize 100, CallSortByTimestamp False]) DefaultSpec],
         debug = []\<rparr>)
   \<and> raw_switch accepting (ByteSlice ''{}'') = Some ([], None)
   \<and> snd (SearchWithSource accepting (ByteSlice ''{}'') None idle)
     = \<lparr>requests =
           [Validate (QueryMapQuery []) DefaultSpec,
            Execute [CallSize 100, CallSortByTimestamp False, CallSource []] (QueryMapQuery []) DefaultSpec],
         debug = []\<rparr>"
  using nil_spec_is_DefaultSpec [of accepting "''error''" idle "ByteSlice ''{}''" "[]" "[]" None]
  by (simp add: SimpleSearch_def SimpleSearchStream_def SimpleSearchStream_submit_def
      SearchWithSource_def SearchWithSourceStream_def raw_switch_def QueryMapFromJSON_def sample_Unmarshal_def
      SearchWithLucene_def NewSearch_def configureSearch_def SearchOptions_apply_def SortByTimestamp_def
      spec_or_default_def validate_def execute_def DefaultSpec_def SortDesc_def
      SearchStream_All_def consumeResults_def extractResult_def extractSource_def
      accepting_def idle_def hit_both_def hit_source_only_def Let_def)

end
